theory Spec2Isabelle
  imports Main
begin

section \<open>JavaScript values of the relay server\<close>

text \<open>
  The server is an Express application with four POST handlers.  Everything the handlers
  look at is JSON that came over the wire, so a value is a JSON value or \<open>undefined\<close>.
  A number is kept as the text \<open>Number.prototype.toString\<close> gives for it: the program only
  tests numbers for truthiness, prints them and passes them on, and both zeros print as
  \<open>0\<close>.  An object is the list of its own properties in order; JSON can never put a
  function into a value.  A string is the list of its characters; the one character the
  program searches for is the ASCII \<open>+\<close>.
\<close>

datatype json =
    JNull
  | JBool bool
  | JNum string
  | JStr string
  | JArr "json list"
  | JObj "(string \<times> json) list"

text \<open>\<open>None\<close> is \<open>undefined\<close>.\<close>

type_synonym jsval = "json option"

text \<open>A thrown \<open>Error\<close>: its constructor's name and its \<open>message\<close>.\<close>

datatype js_error = Thrown (err_name: string) (message: string)

definition TypeError :: "string \<Rightarrow> js_error" where
  "TypeError m = Thrown ''TypeError'' m"

text \<open>\<open>process.env\<close> and \<open>req.headers\<close>: a name is bound to a string or is undefined.\<close>

type_synonym env = "string \<Rightarrow> string option"

text \<open>\<open>!v\<close> is \<open>\<not> truthy v\<close> (the language's ToBoolean).\<close>

fun truthy :: "jsval \<Rightarrow> bool" where
  "truthy None = False"
| "truthy (Some JNull) = False"
| "truthy (Some (JBool b)) = b"
| "truthy (Some (JNum n)) = (n \<noteq> ''0'' \<and> n \<noteq> ''NaN'')"
| "truthy (Some (JStr s)) = (s \<noteq> [])"
| "truthy (Some (JArr xs)) = True"
| "truthy (Some (JObj kvs)) = True"

text \<open>
  \<open>v.k\<close> for the property names this program reads (none of them is a built-in property
  of a string, an array, a number or a boolean): a TypeError on \<open>undefined\<close> and \<open>null\<close>,
  the own property of an object, \<open>undefined\<close> on anything else.
\<close>

fun get_prop :: "jsval \<Rightarrow> string \<Rightarrow> js_error + jsval" where
  "get_prop None k =
     Inl (TypeError (''Cannot read properties of undefined (reading '' @ [CHR 0x27] @ k @ [CHR 0x27] @ '')''))"
| "get_prop (Some JNull) k =
     Inl (TypeError (''Cannot read properties of null (reading '' @ [CHR 0x27] @ k @ [CHR 0x27] @ '')''))"
| "get_prop (Some (JObj kvs)) k = Inr (map_of kvs k)"
| "get_prop (Some v) k = Inr None"

text \<open>
  \<open>const {k, ...} = req.body\<close>: the same read, but on \<open>undefined\<close> and \<open>null\<close> the
  TypeError names the first property of the pattern and the expression destructured.
\<close>

fun destructure :: "jsval \<Rightarrow> string \<Rightarrow> js_error + jsval" where
  "destructure None k =
     Inl (TypeError (''Cannot destructure property '' @ [CHR 0x27] @ k @ [CHR 0x27] @ '' of ''
        @ [CHR 0x27] @ ''req.body'' @ [CHR 0x27] @ '' as it is undefined.''))"
| "destructure (Some JNull) k =
     Inl (TypeError (''Cannot destructure property '' @ [CHR 0x27] @ k @ [CHR 0x27] @ '' of ''
        @ [CHR 0x27] @ ''req.body'' @ [CHR 0x27] @ '' as it is null.''))"
| "destructure (Some (JObj kvs)) k = Inr (map_of kvs k)"
| "destructure (Some v) k = Inr None"

text \<open>\<open>v?.k\<close>: \<open>undefined\<close> on \<open>undefined\<close> and \<open>null\<close>, the property otherwise; it never throws.\<close>

fun opt_prop :: "jsval \<Rightarrow> string \<Rightarrow> jsval" where
  "opt_prop (Some (JObj kvs)) k = map_of kvs k"
| "opt_prop v k = None"

text \<open>
  \<open>v?.[0]\<close>: the first element of an array, the first character of a string, the
  property \<open>0\<close> of an object, \<open>undefined\<close> otherwise.
\<close>

fun opt_index0 :: "jsval \<Rightarrow> jsval" where
  "opt_index0 (Some (JArr [])) = None"
| "opt_index0 (Some (JArr (x # xs))) = Some x"
| "opt_index0 (Some (JStr [])) = None"
| "opt_index0 (Some (JStr (c # cs))) = Some (JStr [c])"
| "opt_index0 (Some (JObj kvs)) = map_of kvs ''0''"
| "opt_index0 v = None"

text \<open>
  The string a template literal puts in for a value (ToString).  An object prints as
  \<open>[object Object]\<close> unless it has an own property \<open>toString\<close>, which from JSON is
  never callable: then the conversion throws.  An array joins its elements with commas,
  \<open>null\<close> printing as nothing.
\<close>

fun to_string :: "json \<Rightarrow> js_error + string"
  and join_elems :: "json list \<Rightarrow> js_error + string" where
  "to_string JNull = Inr ''null''"
| "to_string (JBool b) = Inr (if b then ''true'' else ''false'')"
| "to_string (JNum n) = Inr n"
| "to_string (JStr s) = Inr s"
| "to_string (JArr xs) = join_elems xs"
| "to_string (JObj kvs) =
     (if map_of kvs ''toString'' = None then Inr ''[object Object]''
      else Inl (TypeError ''Cannot convert object to primitive value''))"
| "join_elems [] = Inr []"
| "join_elems (x # xs) =
     (case (if x = JNull then Inr [] else to_string x) of
        Inl e \<Rightarrow> Inl e
      | Inr s \<Rightarrow>
          (if xs = [] then Inr s
           else (case join_elems xs of Inl e \<Rightarrow> Inl e | Inr t \<Rightarrow> Inr (s @ '','' @ t))))"

definition template :: "jsval \<Rightarrow> js_error + string" where
  "template v = (case v of None \<Rightarrow> Inr ''undefined'' | Some j \<Rightarrow> to_string j)"

text \<open>A template literal over an environment variable or a header.\<close>

definition template_str :: "string option \<Rightarrow> string" where
  "template_str v = (case v of None \<Rightarrow> ''undefined'' | Some s \<Rightarrow> s)"

text \<open>
  \<open>s.replace(c, r)\<close> with a one-character string pattern: only the first occurrence is
  replaced.
\<close>

fun replace_first :: "char \<Rightarrow> string \<Rightarrow> string \<Rightarrow> string" where
  "replace_first c r [] = []"
| "replace_first c r (x # xs) = (if x = c then r @ xs else x # replace_first c r xs)"

text \<open>
  \<open>v.replace('+', '')\<close> on a truthy value: a value that is not a string has no callable
  \<open>replace\<close>.
\<close>

fun replace_plus :: "string \<Rightarrow> jsval \<Rightarrow> js_error + string" where
  "replace_plus nm (Some (JStr s)) = Inr (replace_first (CHR ''+'') [] s)"
| "replace_plus nm v = Inl (TypeError (nm @ ''.replace is not a function''))"

text \<open>
  An object literal handed to \<open>JSON.stringify\<close> or \<open>res.json\<close>: properties whose value is
  \<open>undefined\<close> are left out.
\<close>

fun js_object :: "(string \<times> jsval) list \<Rightarrow> (string \<times> json) list" where
  "js_object [] = []"
| "js_object ((k, None) # kvs) = js_object kvs"
| "js_object ((k, Some v) # kvs) = (k, v) # js_object kvs"

definition env_val :: "string option \<Rightarrow> jsval" where
  "env_val v = map_option JStr v"

section \<open>What a handler does\<close>

text \<open>
  A handler is run on one request.  What it leaves behind is the response it sent (if
  any), the lines it wrote to the console, the calls it made to a provider, and the
  exception that left the handler function (if any).
\<close>

datatype log_arg = LStr string | LVal jsval | LErr js_error

datatype log_line = ConsoleLog "log_arg list" | ConsoleError "log_arg list"

datatype resp_body = JsonBody "(string \<times> json) list" | TextBody string

record http_response =
  status :: nat
  body :: resp_body

record fetch_request =
  url :: string
  http_method :: string
  req_headers :: "(string \<times> string) list"
  req_body :: "(string \<times> json) list"

text \<open>
  The answer of \<open>fetch\<close>: its \<open>ok\<close> flag (a 2xx status), and what \<open>await text()\<close> and
  \<open>await json()\<close> give, each of which may reject.
\<close>

record fetch_response =
  ok :: bool
  resp_text :: "js_error + string"
  resp_json :: "js_error + json"

datatype provider_call =
    Fetch fetch_request
  | SessionsCreate "(string \<times> json) list"

record handler_result =
  response :: "http_response option"
  logs :: "log_line list"
  outbound :: "provider_call list"
  uncaught :: "js_error option"

text \<open>\<open>res.status(n).json(obj)\<close>, \<open>res.json(obj)\<close> (status 200) and \<open>res.status(n).send(text)\<close>.\<close>

definition respond :: "nat \<Rightarrow> resp_body \<Rightarrow> log_line list \<Rightarrow> provider_call list \<Rightarrow> handler_result" where
  "respond n b ls cs =
     \<lparr>response = Some \<lparr>status = n, body = b\<rparr>, logs = ls, outbound = cs, uncaught = None\<rparr>"

definition throws :: "js_error \<Rightarrow> log_line list \<Rightarrow> provider_call list \<Rightarrow> handler_result" where
  "throws e ls cs = \<lparr>response = None, logs = ls, outbound = cs, uncaught = Some e\<rparr>"

text \<open>
  The \<open>catch (error)\<close> block the three relay handlers end with: it logs the error under
  the handler's label and answers 500 with the fields the handler builds from it.
\<close>

definition catch_all :: "string \<Rightarrow> (js_error \<Rightarrow> (string \<times> jsval) list) \<Rightarrow> handler_result \<Rightarrow> handler_result" where
  "catch_all label payload r =
     (case uncaught r of
        None \<Rightarrow> r
      | Some e \<Rightarrow>
          r\<lparr>response := Some \<lparr>status = 500, body = JsonBody (js_object (payload e))\<rparr>,
            logs := logs r @ [ConsoleError [LStr label, LErr e]],
            uncaught := None\<rparr>)"

definition internal_error :: "js_error \<Rightarrow> (string \<times> jsval) list" where
  "internal_error e =
     [(''error'', Some (JStr ''Internal server error'')), (''message'', Some (JStr (message e)))]"

section \<open>POST /api/voice-call\<close>

definition voice_call_request :: "env \<Rightarrow> jsval \<Rightarrow> jsval \<Rightarrow> string \<Rightarrow> fetch_request" where
  "voice_call_request env userPhone userId cleanPhone =
     \<lparr>url = ''https://api.retellai.com/create-phone-call'',
      http_method = ''POST'',
      req_headers =
        [(''Authorization'', ''Bearer '' @ template_str (env ''RETELL_API_KEY'')),
         (''Content-Type'', ''application/json'')],
      req_body = js_object
        [(''from_number'', env_val (env ''RETELL_PHONE_NUMBER'')),
         (''to_number'', userPhone),
         (''agent_id'', env_val (env ''RETELL_AGENT_ID'')),
         (''metadata'', Some (JObj (js_object
            [(''user_id'', userId), (''phone'', Some (JStr cleanPhone))])))]\<rparr>"

definition voice_call_try ::
  "env \<Rightarrow> (fetch_request \<Rightarrow> js_error + fetch_response) \<Rightarrow> jsval \<Rightarrow> handler_result" where
  "voice_call_try env fetch req_body_v =
     (case destructure req_body_v ''userPhone'' of
        Inl e \<Rightarrow> throws e [] []
      | Inr userPhone \<Rightarrow>
     (case destructure req_body_v ''userId'' of
        Inl e \<Rightarrow> throws e [] []
      | Inr userId \<Rightarrow>
     if \<not> truthy userPhone then
       respond 400 (JsonBody (js_object
         [(''error'', Some (JStr ''User phone number is required''))])) [] []
     else
     (case replace_plus ''userPhone'' userPhone of
        Inl e \<Rightarrow> throws e [] []
      | Inr cleanPhone \<Rightarrow>
     (let call = voice_call_request env userPhone userId cleanPhone in
      case fetch call of
        Inl e \<Rightarrow> throws e [] [Fetch call]
      | Inr retellResponse \<Rightarrow>
     if \<not> ok retellResponse then
       (case resp_text retellResponse of
          Inl e \<Rightarrow> throws e [] [Fetch call]
        | Inr errorData \<Rightarrow>
            respond 500 (JsonBody (js_object
              [(''error'', Some (JStr ''Failed to initiate call with Retell AI'')),
               (''details'', Some (JStr errorData))]))
              [ConsoleError [LStr ''Retell API error:'', LStr errorData]] [Fetch call])
     else
     (case resp_json retellResponse of
        Inl e \<Rightarrow> throws e [] [Fetch call]
      | Inr callData \<Rightarrow>
     (case get_prop (Some callData) ''call_id'' of
        Inl e \<Rightarrow> throws e [] [Fetch call]
      | Inr call_id \<Rightarrow>
          respond 200 (JsonBody (js_object
            [(''success'', Some (JBool True)),
             (''callId'', call_id),
             (''message'', Some (JStr ''Voice call initiated successfully''))]))
            [] [Fetch call]))))))"

definition voice_call ::
  "env \<Rightarrow> (fetch_request \<Rightarrow> js_error + fetch_response) \<Rightarrow> jsval \<Rightarrow> handler_result" where
  "voice_call env fetch req_body_v =
     catch_all ''Voice call error:'' internal_error (voice_call_try env fetch req_body_v)"

section \<open>POST /api/chat\<close>

definition fallback_reply :: string where
  "fallback_reply =
     ''I apologize, but I couldn'' @ [CHR 0x27] @ ''t process your message. Please try again.''"

definition chat_request :: "env \<Rightarrow> jsval \<Rightarrow> jsval \<Rightarrow> jsval \<Rightarrow> string \<Rightarrow> fetch_request" where
  "chat_request env msg userId sessionId cleanPhone =
     \<lparr>url = ''https://api.retellai.com/chat-completion'',
      http_method = ''POST'',
      req_headers =
        [(''Authorization'', ''Bearer '' @ template_str (env ''RETELL_API_KEY'')),
         (''Content-Type'', ''application/json'')],
      req_body = js_object
        [(''llm_id'', env_val (env ''RETELL_LLM_ID'')),
         (''messages'', Some (JArr [JObj (js_object
            [(''role'', Some (JStr ''user'')), (''content'', msg)])])),
         (''metadata'', Some (JObj (js_object
            [(''user_id'', userId), (''phone'', Some (JStr cleanPhone)),
             (''session_id'', sessionId)])))]\<rparr>"

text \<open>\<open>chatData.choices?.[0]?.message?.content || fallback\<close>, once \<open>chatData.choices\<close> is read.\<close>

definition first_content :: "jsval \<Rightarrow> jsval" where
  "first_content choices = opt_prop (opt_prop (opt_index0 choices) ''message'') ''content''"

definition chat_reply :: "jsval \<Rightarrow> json" where
  "chat_reply choices =
     (case first_content choices of
        None \<Rightarrow> JStr fallback_reply
      | Some c \<Rightarrow> if truthy (Some c) then c else JStr fallback_reply)"

definition chat_try ::
  "env \<Rightarrow> (fetch_request \<Rightarrow> js_error + fetch_response) \<Rightarrow> jsval \<Rightarrow> handler_result" where
  "chat_try env fetch req_body_v =
     (case destructure req_body_v ''message'' of
        Inl e \<Rightarrow> throws e [] []
      | Inr msg \<Rightarrow>
     (case destructure req_body_v ''userPhone'' of
        Inl e \<Rightarrow> throws e [] []
      | Inr userPhone \<Rightarrow>
     (case destructure req_body_v ''userId'' of
        Inl e \<Rightarrow> throws e [] []
      | Inr userId \<Rightarrow>
     (case destructure req_body_v ''sessionId'' of
        Inl e \<Rightarrow> throws e [] []
      | Inr sessionId \<Rightarrow>
     if \<not> truthy msg \<or> \<not> truthy userPhone then
       respond 400 (JsonBody (js_object
         [(''error'', Some (JStr ''Message and user phone are required''))])) [] []
     else
     (case replace_plus ''userPhone'' userPhone of
        Inl e \<Rightarrow> throws e [] []
      | Inr cleanPhone \<Rightarrow>
     (let call = chat_request env msg userId sessionId cleanPhone in
      case fetch call of
        Inl e \<Rightarrow> throws e [] [Fetch call]
      | Inr retellResponse \<Rightarrow>
     if \<not> ok retellResponse then
       (case resp_text retellResponse of
          Inl e \<Rightarrow> throws e [] [Fetch call]
        | Inr errorData \<Rightarrow>
            respond 500 (JsonBody (js_object
              [(''error'', Some (JStr ''Failed to get response from Savana'')),
               (''details'', Some (JStr errorData))]))
              [ConsoleError [LStr ''Retell Chat API error:'', LStr errorData]] [Fetch call])
     else
     (case resp_json retellResponse of
        Inl e \<Rightarrow> throws e [] [Fetch call]
      | Inr chatData \<Rightarrow>
     (case get_prop (Some chatData) ''choices'' of
        Inl e \<Rightarrow> throws e [] [Fetch call]
      | Inr choices \<Rightarrow>
     (case get_prop (Some chatData) ''session_id'' of
        Inl e \<Rightarrow> throws e [] [Fetch call]
      | Inr session_id \<Rightarrow>
          respond 200 (JsonBody (js_object
            [(''success'', Some (JBool True)),
             (''response'', Some (chat_reply choices)),
             (''sessionId'', session_id)]))
            [] [Fetch call])))))))))"

definition chat ::
  "env \<Rightarrow> (fetch_request \<Rightarrow> js_error + fetch_response) \<Rightarrow> jsval \<Rightarrow> handler_result" where
  "chat env fetch req_body_v =
     catch_all ''Chat error:'' internal_error (chat_try env fetch req_body_v)"

section \<open>POST /api/create-checkout-session\<close>

text \<open>
  The parameters handed to \<open>stripe.checkout.sessions.create\<close>; \<open>origin\<close> is
  \<open>req.headers.origin\<close>.  The handler reads the four fields and passes them on as they
  are: it tests none of them.
\<close>

definition checkout_params ::
  "string option \<Rightarrow> jsval \<Rightarrow> jsval \<Rightarrow> jsval \<Rightarrow> jsval \<Rightarrow> (string \<times> json) list" where
  "checkout_params origin priceId userId userEmail planName = js_object
     [(''payment_method_types'', Some (JArr [JStr ''card''])),
      (''line_items'', Some (JArr [JObj (js_object
         [(''price'', priceId), (''quantity'', Some (JNum ''1''))])])),
      (''mode'', Some (JStr ''subscription'')),
      (''success_url'', Some (JStr
         (template_str origin @ ''/dashboard?session_id={CHECKOUT_SESSION_ID}''))),
      (''cancel_url'', Some (JStr (template_str origin @ ''/subscribe''))),
      (''customer_email'', userEmail),
      (''metadata'', Some (JObj (js_object
         [(''userId'', userId), (''planName'', planName)])))]"

definition create_checkout_session_try ::
  "((string \<times> json) list \<Rightarrow> js_error + json) \<Rightarrow> env \<Rightarrow> jsval \<Rightarrow> handler_result" where
  "create_checkout_session_try sessions_create headers req_body_v =
     (case destructure req_body_v ''priceId'' of
        Inl e \<Rightarrow> throws e [] []
      | Inr priceId \<Rightarrow>
     (case destructure req_body_v ''userId'' of
        Inl e \<Rightarrow> throws e [] []
      | Inr userId \<Rightarrow>
     (case destructure req_body_v ''userEmail'' of
        Inl e \<Rightarrow> throws e [] []
      | Inr userEmail \<Rightarrow>
     (case destructure req_body_v ''planName'' of
        Inl e \<Rightarrow> throws e [] []
      | Inr planName \<Rightarrow>
     (let params = checkout_params (headers ''origin'') priceId userId userEmail planName in
      case sessions_create params of
        Inl e \<Rightarrow> throws e [] [SessionsCreate params]
      | Inr session \<Rightarrow>
     (case get_prop (Some session) ''id'' of
        Inl e \<Rightarrow> throws e [] [SessionsCreate params]
      | Inr session_id \<Rightarrow>
          respond 200 (JsonBody (js_object [(''sessionId'', session_id)]))
            [] [SessionsCreate params]))))))"

definition create_checkout_session ::
  "((string \<times> json) list \<Rightarrow> js_error + json) \<Rightarrow> env \<Rightarrow> jsval \<Rightarrow> handler_result" where
  "create_checkout_session sessions_create headers req_body_v =
     catch_all ''Stripe session creation error:''
       (\<lambda>e. [(''error'', Some (JStr (message e)))])
       (create_checkout_session_try sessions_create headers req_body_v)"

section \<open>POST /api/stripe-webhook\<close>

text \<open>
  \<open>stripe.webhooks.constructEvent\<close> belongs to the Stripe package, not to this server, so
  it is a parameter: given the request body as the middleware left it, the
  \<open>stripe-signature\<close> header and the signing secret, it throws or returns the parsed event.
\<close>

definition known_tags :: "string list" where
  "known_tags =
     [''checkout.session.completed'', ''invoice.payment_succeeded'',
      ''customer.subscription.deleted'']"

definition received :: resp_body where
  "received = JsonBody (js_object [(''received'', Some (JBool True))])"

text \<open>The \<open>switch (event.type)\<close> and the acknowledgement after it; nothing here is in a \<open>try\<close>.\<close>

definition handle_event :: "json \<Rightarrow> handler_result" where
  "handle_event event =
     (case get_prop (Some event) ''type'' of
        Inl e \<Rightarrow> throws e [] []
      | Inr tag \<Rightarrow>
     if tag = Some (JStr ''checkout.session.completed'') then
       (case get_prop (Some event) ''data'' of
          Inl e \<Rightarrow> throws e [] []
        | Inr data \<Rightarrow>
       (case get_prop data ''object'' of
          Inl e \<Rightarrow> throws e [] []
        | Inr session \<Rightarrow>
            respond 200 received [ConsoleLog [LStr ''Payment successful:'', LVal session]] []))
     else if tag = Some (JStr ''invoice.payment_succeeded'') then
       respond 200 received [ConsoleLog [LStr ''Subscription payment succeeded'']] []
     else if tag = Some (JStr ''customer.subscription.deleted'') then
       respond 200 received [ConsoleLog [LStr ''Subscription cancelled'']] []
     else
       (case template tag of
          Inl e \<Rightarrow> throws e [] []
        | Inr shown \<Rightarrow>
            respond 200 received [ConsoleLog [LStr (''Unhandled event type '' @ shown)]] []))"

definition stripe_webhook ::
  "env \<Rightarrow> ('b \<Rightarrow> string option \<Rightarrow> string option \<Rightarrow> js_error + json) \<Rightarrow> env \<Rightarrow> 'b
     \<Rightarrow> handler_result" where
  "stripe_webhook env constructEvent headers raw =
     (let sig = headers ''stripe-signature'' in
      case constructEvent raw sig (env ''STRIPE_WEBHOOK_SECRET'') of
        Inl err \<Rightarrow>
          respond 400 (TextBody (''Webhook Error: '' @ message err))
            [ConsoleLog [LStr ''Webhook signature verification failed.'', LStr (message err)]] []
      | Inr event \<Rightarrow> handle_event event)"

section \<open>The webhook: rejection, dispatch and acknowledgement\<close>

text \<open>
  C1.  Whenever \<open>constructEvent\<close> throws on the request (whatever the reason: the header is
  missing, the signature is malformed, the secret does not match, the timestamp is too old),
  the handler answers 400 with the text \<open>Webhook Error:\<close> and the error's message, writes
  the one line that reports the failure and nothing else: no branch of the switch has
  logged, no provider was called, nothing was thrown, and the answer is not the
  acknowledgement \<open>{received: true}\<close>.
\<close>

theorem webhook_rejects_unverified:
  assumes "constructEvent raw (headers ''stripe-signature'') (env ''STRIPE_WEBHOOK_SECRET'') = Inl err"
  shows "stripe_webhook env constructEvent headers raw =
           \<lparr>response = Some \<lparr>status = 400, body = TextBody (''Webhook Error: '' @ message err)\<rparr>,
            logs = [ConsoleLog [LStr ''Webhook signature verification failed.'', LStr (message err)]],
            outbound = [],
            uncaught = None\<rparr>
         \<and> response (stripe_webhook env constructEvent headers raw)
             \<noteq> Some \<lparr>status = 200, body = received\<rparr>"
  using assms by (simp add: stripe_webhook_def respond_def received_def)

theorem webhook_rejects_unverified_witness:
  "stripe_webhook (\<lambda>k. None)
       (\<lambda>raw sig secret. if sig = None
          then Inl (Thrown ''StripeSignatureVerificationError''
                 ''No stripe-signature header value was provided.'')
          else Inr JNull)
       (\<lambda>k. None) ''{}'' =
     \<lparr>response = Some \<lparr>status = 400,
        body = TextBody ''Webhook Error: No stripe-signature header value was provided.''\<rparr>,
      logs = [ConsoleLog [LStr ''Webhook signature verification failed.'',
                LStr ''No stripe-signature header value was provided.'']],
      outbound = [],
      uncaught = None\<rparr>"
  using webhook_rejects_unverified
    [where constructEvent = "\<lambda>raw sig secret. if sig = None
          then Inl (Thrown ''StripeSignatureVerificationError''
                 ''No stripe-signature header value was provided.'')
          else Inr JNull"
       and raw = "''{}''" and headers = "\<lambda>k. None" and env = "\<lambda>k. None"]
  by simp

text \<open>
  C5.  A verified event whose \<open>type\<close> is a string other than the three known tags goes to
  the \<open>default\<close> branch: the handler writes \<open>Unhandled event type\<close> followed by the tag,
  throws nothing, and answers 200 with \<open>{received: true}\<close>.
\<close>

theorem unknown_tag_acknowledged:
  assumes "constructEvent raw (headers ''stripe-signature'') (env ''STRIPE_WEBHOOK_SECRET'')
             = Inr (JObj kvs)"
    and "map_of kvs ''type'' = Some (JStr tag)"
    and "tag \<notin> set known_tags"
  shows "stripe_webhook env constructEvent headers raw =
           \<lparr>response = Some \<lparr>status = 200, body = JsonBody [(''received'', JBool True)]\<rparr>,
            logs = [ConsoleLog [LStr (''Unhandled event type '' @ tag)]],
            outbound = [],
            uncaught = None\<rparr>"
  using assms
  by (simp add: stripe_webhook_def handle_event_def known_tags_def respond_def received_def
      template_def)

theorem unknown_tag_acknowledged_witness:
  "stripe_webhook (\<lambda>k. Some ''whsec_test'')
       (\<lambda>raw sig secret. if sig = Some ''t=1,v1=00'' \<and> secret = Some ''whsec_test''
          then Inr (JObj [(''id'', JStr ''evt_1''), (''type'', JStr ''charge.refunded'')])
          else Inl (Thrown ''StripeSignatureVerificationError'' ''No signatures found''))
       (\<lambda>k. if k = ''stripe-signature'' then Some ''t=1,v1=00'' else None) ''raw'' =
     \<lparr>response = Some \<lparr>status = 200, body = JsonBody [(''received'', JBool True)]\<rparr>,
      logs = [ConsoleLog [LStr ''Unhandled event type charge.refunded'']],
      outbound = [],
      uncaught = None\<rparr>"
  using unknown_tag_acknowledged
    [where constructEvent = "\<lambda>raw sig secret.
          if sig = Some ''t=1,v1=00'' \<and> secret = Some ''whsec_test''
          then Inr (JObj [(''id'', JStr ''evt_1''), (''type'', JStr ''charge.refunded'')])
          else Inl (Thrown ''StripeSignatureVerificationError'' ''No signatures found'')"
       and raw = "''raw''"
       and headers = "\<lambda>k. if k = ''stripe-signature'' then Some ''t=1,v1=00'' else None"
       and env = "\<lambda>k. Some ''whsec_test''"
       and kvs = "[(''id'', JStr ''evt_1''), (''type'', JStr ''charge.refunded'')]"
       and tag = "''charge.refunded''"]
  by (simp add: known_tags_def)

text \<open>
  C4.  The claim fails: the switch and the acknowledgement are outside the handler's only
  \<open>try\<close>.  A verified \<open>checkout.session.completed\<close> event that has no \<open>data\<close> makes
  \<open>event.data.object\<close> throw; the TypeError leaves the handler function uncaught, and the
  handler has sent no response and no acknowledgement.
\<close>

theorem dispatch_exception_escapes:
  "stripe_webhook (\<lambda>k. Some ''whsec_test'')
     (\<lambda>raw sig secret. Inr (JObj [(''type'', JStr ''checkout.session.completed'')]))
     (\<lambda>k. Some ''t=1,v1=00'') ''raw'' =
   \<lparr>response = None, logs = [], outbound = [],
    uncaught = Some (Thrown ''TypeError''
      (''Cannot read properties of undefined (reading '' @ [CHR 0x27] @ ''object''
         @ [CHR 0x27] @ '')''))\<rparr>"
  by (simp add: stripe_webhook_def handle_event_def throws_def TypeError_def)

lemma handle_event_cases:
  "uncaught (handle_event event) \<noteq> None \<or>
   response (handle_event event) =
     Some \<lparr>status = 200, body = JsonBody [(''received'', JBool True)]\<rparr>"
  by (simp add: handle_event_def respond_def throws_def received_def split: sum.splits)

text \<open>
  C4, amended.  A verification failure is caught inside the handler and answered with 400.
  For a verified event, a dispatch that throws nothing is followed by the acknowledgement
  200 \<open>{received: true}\<close>; and dispatch throws nothing when the event is an object whose
  \<open>type\<close> is a string and which, for \<open>checkout.session.completed\<close>, has a \<open>data\<close> that is
  not \<open>null\<close>.
\<close>

theorem webhook_ack_unless_thrown:
  "(constructEvent raw (headers ''stripe-signature'') (env ''STRIPE_WEBHOOK_SECRET'') = Inl err
      \<longrightarrow> uncaught (stripe_webhook env constructEvent headers raw) = None
        \<and> response (stripe_webhook env constructEvent headers raw) =
            Some \<lparr>status = 400, body = TextBody (''Webhook Error: '' @ message err)\<rparr>)
   \<and> (constructEvent raw (headers ''stripe-signature'') (env ''STRIPE_WEBHOOK_SECRET'')
          = Inr event
        \<and> uncaught (stripe_webhook env constructEvent headers raw) = None
      \<longrightarrow> response (stripe_webhook env constructEvent headers raw) =
            Some \<lparr>status = 200, body = JsonBody [(''received'', JBool True)]\<rparr>)
   \<and> (constructEvent raw (headers ''stripe-signature'') (env ''STRIPE_WEBHOOK_SECRET'')
          = Inr (JObj kvs)
        \<and> map_of kvs ''type'' = Some (JStr tag)
        \<and> (tag = ''checkout.session.completed''
             \<longrightarrow> map_of kvs ''data'' \<noteq> None \<and> map_of kvs ''data'' \<noteq> Some JNull)
      \<longrightarrow> uncaught (stripe_webhook env constructEvent headers raw) = None)"
  (is "?rejected \<and> ?acked \<and> ?quiet")
proof -
  have 1: ?rejected
    by (simp add: stripe_webhook_def respond_def)
  have 2: ?acked
    using handle_event_cases [of event] by (auto simp: stripe_webhook_def)
  have 3: ?quiet
  proof
    assume h: "constructEvent raw (headers ''stripe-signature'') (env ''STRIPE_WEBHOOK_SECRET'')
          = Inr (JObj kvs)
        \<and> map_of kvs ''type'' = Some (JStr tag)
        \<and> (tag = ''checkout.session.completed''
             \<longrightarrow> map_of kvs ''data'' \<noteq> None \<and> map_of kvs ''data'' \<noteq> Some JNull)"
    show "uncaught (stripe_webhook env constructEvent headers raw) = None"
    proof (cases "tag = ''checkout.session.completed''")
      case True
      with h obtain d where d: "map_of kvs ''data'' = Some d" "d \<noteq> JNull" by auto
      then obtain s where "get_prop (Some d) ''object'' = Inr s" by (cases d) auto
      with h True d show ?thesis
        by (simp add: stripe_webhook_def handle_event_def respond_def)
    next
      case False
      with h show ?thesis
        by (simp add: stripe_webhook_def handle_event_def respond_def template_def)
    qed
  qed
  from 1 2 3 show ?thesis by blast
qed

theorem webhook_ack_unless_thrown_witness:
  "uncaught (stripe_webhook (\<lambda>k. Some ''whsec_test'')
      (\<lambda>raw sig secret. Inr (JObj
         [(''type'', JStr ''checkout.session.completed''),
          (''data'', JObj [(''object'', JObj [(''id'', JStr ''cs_test_1'')])])]))
      (\<lambda>k. Some ''t=1,v1=00'') ''raw'') = None
   \<and> response (stripe_webhook (\<lambda>k. Some ''whsec_test'')
      (\<lambda>raw sig secret. Inr (JObj
         [(''type'', JStr ''checkout.session.completed''),
          (''data'', JObj [(''object'', JObj [(''id'', JStr ''cs_test_1'')])])]))
      (\<lambda>k. Some ''t=1,v1=00'') ''raw'') =
       Some \<lparr>status = 200, body = JsonBody [(''received'', JBool True)]\<rparr>"
  using webhook_ack_unless_thrown
    [where constructEvent = "\<lambda>raw sig secret. Inr (JObj
         [(''type'', JStr ''checkout.session.completed''),
          (''data'', JObj [(''object'', JObj [(''id'', JStr ''cs_test_1'')])])])"
       and raw = "''raw''" and headers = "\<lambda>k. Some ''t=1,v1=00''"
       and env = "\<lambda>k. Some ''whsec_test''"
       and event = "JObj
         [(''type'', JStr ''checkout.session.completed''),
          (''data'', JObj [(''object'', JObj [(''id'', JStr ''cs_test_1'')])])]"
       and kvs = "[(''type'', JStr ''checkout.session.completed''),
          (''data'', JObj [(''object'', JObj [(''id'', JStr ''cs_test_1'')])])]"
       and tag = "''checkout.session.completed''"]
  by simp




section \<open>The relay endpoints\<close>

lemma destructure_read: "get_prop b k = Inr v \<Longrightarrow> destructure b k = Inr v"
  by (cases "(b, k)" rule: get_prop.cases) auto

lemma destructure_other: "get_prop b k = Inr v \<Longrightarrow> \<exists>w. destructure b k' = Inr w"
  by (cases "(b, k)" rule: get_prop.cases) auto



lemma catch_all_outbound: "outbound (catch_all l f r) = outbound r"
  by (simp add: catch_all_def split: option.splits)

text \<open>
  C3.  The claim fails for checkout-session creation, which tests none of its fields.  A
  body with no \<open>userId\<close> is handed to the provider and, when the provider accepts it,
  answered with 200; an empty body is handed to the provider too, and the provider's
  refusal comes back as 500.  Neither answer is 400, and both made the outbound call.
\<close>

theorem checkout_forwards_incomplete_body:
  "create_checkout_session (\<lambda>params. Inr (JObj [(''id'', JStr ''cs_test_1'')]))
     (\<lambda>k. if k = ''origin'' then Some ''http://localhost:5173'' else None)
     (Some (JObj [(''priceId'', JStr ''price_1''), (''userEmail'', JStr ''a@b.c''),
                  (''planName'', JStr ''pro'')])) =
   \<lparr>response = Some \<lparr>status = 200, body = JsonBody [(''sessionId'', JStr ''cs_test_1'')]\<rparr>,
    logs = [],
    outbound = [SessionsCreate
      [(''payment_method_types'', JArr [JStr ''card'']),
       (''line_items'', JArr [JObj [(''price'', JStr ''price_1''), (''quantity'', JNum ''1'')]]),
       (''mode'', JStr ''subscription''),
       (''success_url'',
          JStr ''http://localhost:5173/dashboard?session_id={CHECKOUT_SESSION_ID}''),
       (''cancel_url'', JStr ''http://localhost:5173/subscribe''),
       (''customer_email'', JStr ''a@b.c''),
       (''metadata'', JObj [(''planName'', JStr ''pro'')])]],
    uncaught = None\<rparr>
   \<and> create_checkout_session
     (\<lambda>params. Inl (Thrown ''StripeInvalidRequestError'' ''Missing required param: price''))
     (\<lambda>k. None) (Some (JObj [])) =
   \<lparr>response = Some \<lparr>status = 500,
      body = JsonBody [(''error'', JStr ''Missing required param: price'')]\<rparr>,
    logs = [ConsoleError [LStr ''Stripe session creation error:'',
       LErr (Thrown ''StripeInvalidRequestError'' ''Missing required param: price'')]],
    outbound = [SessionsCreate
      [(''payment_method_types'', JArr [JStr ''card'']),
       (''line_items'', JArr [JObj [(''quantity'', JNum ''1'')]]),
       (''mode'', JStr ''subscription''),
       (''success_url'', JStr ''undefined/dashboard?session_id={CHECKOUT_SESSION_ID}''),
       (''cancel_url'', JStr ''undefined/subscribe''),
       (''metadata'', JObj [])]],
    uncaught = None\<rparr>"
  by (simp add: create_checkout_session_def create_checkout_session_try_def catch_all_def
      checkout_params_def respond_def throws_def template_str_def)

text \<open>
  C3, amended.  A call-initiation request whose JSON body has no truthy \<open>userPhone\<close>, and a
  chat-relay request whose JSON body has no truthy \<open>message\<close> or no truthy \<open>userPhone\<close>,
  is answered with 400 and a JSON body that holds an \<open>error\<close> field, and no call to the
  provider is made.  (A missing field reads as \<open>undefined\<close>, which is not truthy.)
\<close>

theorem missing_field_400:
  "(get_prop b ''userPhone'' = Inr v \<and> \<not> truthy v
      \<longrightarrow> voice_call env fetch b =
            \<lparr>response = Some \<lparr>status = 400,
               body = JsonBody [(''error'', JStr ''User phone number is required'')]\<rparr>,
             logs = [], outbound = [], uncaught = None\<rparr>)
   \<and> (get_prop b ''message'' = Inr m \<and> get_prop b ''userPhone'' = Inr v
        \<and> (\<not> truthy m \<or> \<not> truthy v)
      \<longrightarrow> chat env fetch b =
            \<lparr>response = Some \<lparr>status = 400,
               body = JsonBody [(''error'', JStr ''Message and user phone are required'')]\<rparr>,
             logs = [], outbound = [], uncaught = None\<rparr>)"
proof (intro conjI impI)
  assume h: "get_prop b ''userPhone'' = Inr v \<and> \<not> truthy v"
  from h have p: "destructure b ''userPhone'' = Inr v"
    by (simp add: destructure_read)
  from h destructure_other [of b "''userPhone''" v "''userId''"]
  obtain uid where "destructure b ''userId'' = Inr uid" by blast
  with h p show "voice_call env fetch b =
            \<lparr>response = Some \<lparr>status = 400,
               body = JsonBody [(''error'', JStr ''User phone number is required'')]\<rparr>,
             logs = [], outbound = [], uncaught = None\<rparr>"
    by (simp add: voice_call_def voice_call_try_def catch_all_def respond_def)
next
  assume h: "get_prop b ''message'' = Inr m \<and> get_prop b ''userPhone'' = Inr v
        \<and> (\<not> truthy m \<or> \<not> truthy v)"
  from h have p: "destructure b ''message'' = Inr m" "destructure b ''userPhone'' = Inr v"
    by (simp_all add: destructure_read)
  from h destructure_other [of b "''message''" m "''userId''"]
  obtain uid where "destructure b ''userId'' = Inr uid" by blast
  moreover from h destructure_other [of b "''message''" m "''sessionId''"]
  obtain sid where "destructure b ''sessionId'' = Inr sid" by blast
  ultimately show "chat env fetch b =
            \<lparr>response = Some \<lparr>status = 400,
               body = JsonBody [(''error'', JStr ''Message and user phone are required'')]\<rparr>,
             logs = [], outbound = [], uncaught = None\<rparr>"
    using h p by (auto simp add: chat_def chat_try_def catch_all_def respond_def)
qed

theorem missing_field_400_witness:
  "voice_call (\<lambda>k. None) (\<lambda>rq. Inl (Thrown ''TypeError'' ''fetch failed''))
       (Some (JObj [(''userId'', JStr ''u1''), (''message'', JStr ''hi'')])) =
     \<lparr>response = Some \<lparr>status = 400,
        body = JsonBody [(''error'', JStr ''User phone number is required'')]\<rparr>,
      logs = [], outbound = [], uncaught = None\<rparr>
   \<and> chat (\<lambda>k. None) (\<lambda>rq. Inl (Thrown ''TypeError'' ''fetch failed''))
       (Some (JObj [(''userId'', JStr ''u1''), (''message'', JStr ''hi'')])) =
     \<lparr>response = Some \<lparr>status = 400,
        body = JsonBody [(''error'', JStr ''Message and user phone are required'')]\<rparr>,
      logs = [], outbound = [], uncaught = None\<rparr>"
  using missing_field_400
    [where b = "Some (JObj [(''userId'', JStr ''u1''), (''message'', JStr ''hi'')])"
       and v = None and m = "Some (JStr ''hi'')" and env = "\<lambda>k. None"
       and fetch = "\<lambda>rq. Inl (Thrown ''TypeError'' ''fetch failed'')"]
  by simp

text \<open>
  C6.  With the required fields there (the phone a non-empty string, and for chat a
  truthy message), a provider answer that is not \<open>ok\<close> and whose text is \<open>errorData\<close> is
  turned into 500 with a JSON body of two fields: \<open>error\<close>, and \<open>details\<close> holding
  \<open>errorData\<close>.
\<close>

theorem upstream_failure_500:
  assumes "\<not> ok r" and "resp_text r = Inr errorData"
    and "map_of kvs ''userPhone'' = Some (JStr p)" and "p \<noteq> []"
  shows "(fetch (voice_call_request env (Some (JStr p)) (map_of kvs ''userId'')
              (replace_first (CHR ''+'') [] p)) = Inr r
          \<longrightarrow> response (voice_call env fetch (Some (JObj kvs))) =
                Some \<lparr>status = 500, body = JsonBody
                  [(''error'', JStr ''Failed to initiate call with Retell AI''),
                   (''details'', JStr errorData)]\<rparr>)
       \<and> (truthy (map_of kvs ''message'')
           \<and> fetch (chat_request env (map_of kvs ''message'') (map_of kvs ''userId'')
                (map_of kvs ''sessionId'') (replace_first (CHR ''+'') [] p)) = Inr r
          \<longrightarrow> response (chat env fetch (Some (JObj kvs))) =
                Some \<lparr>status = 500, body = JsonBody
                  [(''error'', JStr ''Failed to get response from Savana''),
                   (''details'', JStr errorData)]\<rparr>)"
  using assms
  by (simp add: voice_call_def voice_call_try_def chat_def chat_try_def catch_all_def
      respond_def Let_def)

theorem upstream_failure_500_witness:
  "response (voice_call (\<lambda>k. None)
       (\<lambda>rq. Inr \<lparr>ok = False, resp_text = Inr ''agent not found'',
                  resp_json = Inl (Thrown ''SyntaxError'' ''Unexpected token a'')\<rparr>)
       (Some (JObj [(''message'', JStr ''hi''), (''userPhone'', JStr ''+15550100'')]))) =
     Some \<lparr>status = 500, body = JsonBody
       [(''error'', JStr ''Failed to initiate call with Retell AI''),
        (''details'', JStr ''agent not found'')]\<rparr>
   \<and> response (chat (\<lambda>k. None)
       (\<lambda>rq. Inr \<lparr>ok = False, resp_text = Inr ''agent not found'',
                  resp_json = Inl (Thrown ''SyntaxError'' ''Unexpected token a'')\<rparr>)
       (Some (JObj [(''message'', JStr ''hi''), (''userPhone'', JStr ''+15550100'')]))) =
     Some \<lparr>status = 500, body = JsonBody
       [(''error'', JStr ''Failed to get response from Savana''),
        (''details'', JStr ''agent not found'')]\<rparr>"
  using upstream_failure_500
    [where r = "\<lparr>ok = False, resp_text = Inr ''agent not found'',
                  resp_json = Inl (Thrown ''SyntaxError'' ''Unexpected token a'')\<rparr>"
       and errorData = "''agent not found''"
       and kvs = "[(''message'', JStr ''hi''), (''userPhone'', JStr ''+15550100'')]"
       and p = "''+15550100''" and env = "\<lambda>k. None"
       and fetch = "\<lambda>rq. Inr \<lparr>ok = False, resp_text = Inr ''agent not found'',
                  resp_json = Inl (Thrown ''SyntaxError'' ''Unexpected token a'')\<rparr>"]
  by simp

subsection \<open>The phone number in the call request\<close>

lemma replace_first_absent: "c \<notin> set s \<Longrightarrow> replace_first c r s = s"
  by (induction s) auto

lemma replace_first_split: "c \<notin> set a \<Longrightarrow> replace_first c r (a @ c # b) = a @ r @ b"
  by (induction a) auto

lemma voice_call_try_outbound:
  assumes "map_of kvs ''userPhone'' = Some (JStr p)" and "p \<noteq> []"
  shows "outbound (voice_call_try env fetch (Some (JObj kvs))) =
           [Fetch (voice_call_request env (Some (JStr p)) (map_of kvs ''userId'')
              (replace_first (CHR ''+'') [] p))]"
  using assms
  by (simp add: voice_call_try_def Let_def respond_def throws_def split: sum.splits)

lemma request_metadata_phone:
  "opt_prop (map_of (req_body (voice_call_request env up uid cp)) ''metadata'') ''phone''
     = Some (JStr cp)"
  by (cases "env ''RETELL_PHONE_NUMBER''"; cases "env ''RETELL_AGENT_ID''"; cases up; cases uid)
     (simp_all add: voice_call_request_def env_val_def)

lemma request_to_number:
  "map_of (req_body (voice_call_request env (Some v) uid cp)) ''to_number'' = Some v"
  by (cases "env ''RETELL_PHONE_NUMBER''"; cases "env ''RETELL_AGENT_ID''"; cases uid)
     (simp_all add: voice_call_request_def env_val_def)

text \<open>
  C9.  When \<open>userPhone\<close> is a non-empty string, the handler makes one provider request,
  whatever becomes of it.  Its \<open>to_number\<close> is \<open>userPhone\<close> unchanged, and its
  \<open>metadata.phone\<close> is \<open>userPhone\<close> with the first \<open>+\<close> taken out: a string with no \<open>+\<close>
  is kept whole, and in \<open>a + b\<close> with no \<open>+\<close> in \<open>a\<close> every \<open>+\<close> of \<open>b\<close> stays.
\<close>

theorem voice_call_phone_numbers:
  assumes "map_of kvs ''userPhone'' = Some (JStr p)" and "p \<noteq> []"
  shows "\<exists>rq. outbound (voice_call env fetch (Some (JObj kvs))) = [Fetch rq]
           \<and> map_of (req_body rq) ''to_number'' = Some (JStr p)
           \<and> opt_prop (map_of (req_body rq) ''metadata'') ''phone''
               = Some (JStr (replace_first (CHR ''+'') [] p))
           \<and> (CHR ''+'' \<notin> set p \<longrightarrow> replace_first (CHR ''+'') [] p = p)
           \<and> (\<forall>a b. p = a @ CHR ''+'' # b \<and> CHR ''+'' \<notin> set a
                 \<longrightarrow> replace_first (CHR ''+'') [] p = a @ b)"
proof -
  let ?rq = "voice_call_request env (Some (JStr p)) (map_of kvs ''userId'')
              (replace_first (CHR ''+'') [] p)"
  have "outbound (voice_call env fetch (Some (JObj kvs))) = [Fetch ?rq]"
    using voice_call_try_outbound [OF assms] by (simp add: voice_call_def catch_all_outbound)
  moreover have "map_of (req_body ?rq) ''to_number'' = Some (JStr p)"
    by (rule request_to_number)
  moreover have "opt_prop (map_of (req_body ?rq) ''metadata'') ''phone''
               = Some (JStr (replace_first (CHR ''+'') [] p))"
    by (rule request_metadata_phone)
  moreover have "CHR ''+'' \<notin> set p \<longrightarrow> replace_first (CHR ''+'') [] p = p"
    by (simp add: replace_first_absent)
  moreover have "\<forall>a b. p = a @ CHR ''+'' # b \<and> CHR ''+'' \<notin> set a
                 \<longrightarrow> replace_first (CHR ''+'') [] p = a @ b"
    by (auto simp: replace_first_split)
  ultimately show ?thesis by blast
qed

theorem voice_call_phone_numbers_witness:
  "\<exists>rq. outbound (voice_call (\<lambda>k. None) (\<lambda>rq. Inl (Thrown ''TypeError'' ''fetch failed''))
            (Some (JObj [(''userPhone'', JStr ''+1+555''), (''userId'', JStr ''u1'')])))
          = [Fetch rq]
       \<and> map_of (req_body rq) ''to_number'' = Some (JStr ''+1+555'')
       \<and> opt_prop (map_of (req_body rq) ''metadata'') ''phone'' = Some (JStr ''1+555'')"
  using voice_call_phone_numbers
    [where kvs = "[(''userPhone'', JStr ''+1+555''), (''userId'', JStr ''u1'')]"
       and p = "''+1+555''" and env = "\<lambda>k. None"
       and fetch = "\<lambda>rq. Inl (Thrown ''TypeError'' ''fetch failed'')"]
  by (simp, blast)

subsection \<open>The reply of the chat relay\<close>










end
